theory Spec2Isabelle
  imports Main
begin

section \<open>Platform interfaces\<close>

text \<open>
  The Durable Store is AsyncStorage: string keys, string values. Its operations are
  modelled as total (a rejected storage promise is outside the model), and every
  asynchronous function of the source is one atomic step, as the single-threaded
  scheduling of the client makes it between two suspension points.
\<close>

type_synonym storage = "string \<rightharpoonup> string"

text \<open>
  \<open>JSON.parse\<close> and \<open>JSON.stringify\<close> belong to the host platform, so the operations take
  them as parameters. A parser returns \<open>SyntaxError\<close> where \<open>JSON.parse\<close> throws,
  \<open>Parsed None\<close> for the document \<open>null\<close>, and \<open>Parsed (Some d)\<close> for a document read at
  the TypeScript type the source casts it to.
\<close>

datatype 'd parse_result = SyntaxError | Parsed "'d option"

text \<open>JavaScript truthiness of a \<open>string | null\<close>: neither null nor the empty string.\<close>

definition truthy :: "string option \<Rightarrow> bool" where
  "truthy x = (case x of None \<Rightarrow> False | Some s \<Rightarrow> s \<noteq> [])"

section \<open>TTL cache: src/utils/storage.ts\<close>

text \<open>
  \<open>StoredValue<T> = { value: T; expiresAt?: number }\<close>. Timestamps and durations are
  integers of milliseconds (\<open>Date.now()\<close> is passed in as \<open>now\<close>); an absent, undefined
  or null field is \<open>None\<close>.
\<close>

record 'v StoredValue =
  value_sv :: "'v option"
  expiresAt :: "int option"

definition setItemWithTTL ::
  "('v StoredValue \<Rightarrow> string) \<Rightarrow> int \<Rightarrow> string \<Rightarrow> 'v \<Rightarrow> int option \<Rightarrow> storage \<Rightarrow> storage" where
  "setItemWithTTL stringify now key v ttlMs st =
     (let payload = \<lparr>value_sv = Some v,
                     expiresAt = (case ttlMs of
                                    None \<Rightarrow> None
                                  | Some t \<Rightarrow> if t \<noteq> 0 then Some (now + t) else None)\<rparr>
      in st(key \<mapsto> stringify payload))"

text \<open>
  The expiry test of \<open>getItemWithTTL\<close>: \<open>parsed.expiresAt && parsed.expiresAt < Date.now()\<close>.
  The left operand is falsy for an absent field and for the number 0.
\<close>

definition expired :: "'v StoredValue \<Rightarrow> int \<Rightarrow> bool" where
  "expired parsed now =
     (case expiresAt parsed of None \<Rightarrow> False | Some e \<Rightarrow> e \<noteq> 0 \<and> e < now)"

definition getItemWithTTL ::
  "(string \<Rightarrow> 'v StoredValue parse_result) \<Rightarrow> int \<Rightarrow> string \<Rightarrow> storage \<Rightarrow> 'v option \<times> storage" where
  "getItemWithTTL parse now key st =
     (case st key of
        None \<Rightarrow> (None, st)
      | Some raw \<Rightarrow>
          if raw = [] then (None, st)
          else (case parse raw of
                  SyntaxError \<Rightarrow> (None, st(key := None))
                | Parsed None \<Rightarrow> (None, st(key := None))
                | Parsed (Some parsed) \<Rightarrow>
                    if expired parsed now then (None, st(key := None))
                    else (value_sv parsed, st)))"

definition removeItem :: "string \<Rightarrow> storage \<Rightarrow> storage" where
  "removeItem key st = st(key := None)"

text \<open>
  A finite table of \<open>JSON.stringify\<close> and \<open>JSON.parse\<close> for the examples below: the
  payloads written for the encoded key \<open>MTIzNA==\<close> (base-64 of \<open>1234\<close>), and the empty
  object. The table rejects every other text, the empty text among them.
\<close>

definition sample_stringify :: "string StoredValue \<Rightarrow> string" where
  "sample_stringify p =
     (if p = \<lparr>value_sv = Some ''MTIzNA=='', expiresAt = None\<rparr>
        then ''{\"value\":\"MTIzNA==\"}''
      else if p = \<lparr>value_sv = Some ''MTIzNA=='', expiresAt = Some 300000\<rparr>
        then ''{\"value\":\"MTIzNA==\",\"expiresAt\":300000}''
      else if p = \<lparr>value_sv = Some ''MTIzNA=='', expiresAt = Some 300500\<rparr>
        then ''{\"value\":\"MTIzNA==\",\"expiresAt\":300500}''
      else ''{}'')"

definition sample_parse :: "string \<Rightarrow> string StoredValue parse_result" where
  "sample_parse raw =
     (if raw = ''{\"value\":\"MTIzNA==\"}''
        then Parsed (Some \<lparr>value_sv = Some ''MTIzNA=='', expiresAt = None\<rparr>)
      else if raw = ''{\"value\":\"MTIzNA==\",\"expiresAt\":300000}''
        then Parsed (Some \<lparr>value_sv = Some ''MTIzNA=='', expiresAt = Some 300000\<rparr>)
      else if raw = ''{\"value\":\"MTIzNA==\",\"expiresAt\":300500}''
        then Parsed (Some \<lparr>value_sv = Some ''MTIzNA=='', expiresAt = Some 300500\<rparr>)
      else if raw = ''{}''
        then Parsed (Some \<lparr>value_sv = None, expiresAt = None\<rparr>)
      else SyntaxError)"

section \<open>Secret key cache: src/hooks/use-encryption-key.ts\<close>

definition STORAGE_KEY :: string where
  "STORAGE_KEY = ''securevault:ekey''"

definition TTL_MS :: int where
  "TTL_MS = 5 * 60 * 1000"

text \<open>
  The hook's React state: \<open>rawKey\<close> is the in-memory mirror of the encoded key. The hook
  reads the TTL cache once, in the effect that runs when the component mounts; every
  later read of \<open>encodedKey\<close> is answered from \<open>rawKey\<close>. \<open>encodeKey\<close> (base-64 of the
  \<open>base-64\<close> package) is a parameter.
\<close>

record EncryptionKeyHook =
  rawKey :: "string option"
  isKeyHydrated :: bool

definition mountKeyHook :: EncryptionKeyHook where
  "mountKeyHook = \<lparr>rawKey = None, isKeyHydrated = False\<rparr>"

definition hydrateKey ::
  "(string \<Rightarrow> string StoredValue parse_result) \<Rightarrow> int \<Rightarrow> EncryptionKeyHook \<times> storage
     \<Rightarrow> EncryptionKeyHook \<times> storage" where
  "hydrateKey parse now hs =
     (case getItemWithTTL parse now STORAGE_KEY (snd hs) of
        (stored, st') \<Rightarrow> ((fst hs)\<lparr>rawKey := stored, isKeyHydrated := True\<rparr>, st'))"

definition setKey ::
  "(string \<Rightarrow> string) \<Rightarrow> (string StoredValue \<Rightarrow> string) \<Rightarrow> int \<Rightarrow> string \<Rightarrow> bool
     \<Rightarrow> EncryptionKeyHook \<times> storage \<Rightarrow> EncryptionKeyHook \<times> storage" where
  "setKey encodeKey stringify now v persist hs =
     (let encoded = encodeKey v
      in ((fst hs)\<lparr>rawKey := Some encoded\<rparr>,
          if persist then setItemWithTTL stringify now STORAGE_KEY encoded (Some TTL_MS) (snd hs)
          else snd hs))"

definition clearKey :: "EncryptionKeyHook \<times> storage \<Rightarrow> EncryptionKeyHook \<times> storage" where
  "clearKey hs = ((fst hs)\<lparr>rawKey := None\<rparr>, removeItem STORAGE_KEY (snd hs))"

definition encodedKey :: "EncryptionKeyHook \<Rightarrow> string option" where
  "encodedKey h = rawKey h"

text \<open>
  Histories of the cache: each operation carries the clock value at which it runs.
  \<open>Relaunch\<close> is a process restart, a fresh mount of the hook over the surviving store,
  whose effect reads through the TTL cache.
\<close>

datatype key_op = SetKey string bool | ClearKey | Relaunch

fun key_step ::
  "(string \<Rightarrow> string) \<Rightarrow> (string StoredValue \<Rightarrow> string) \<Rightarrow> (string \<Rightarrow> string StoredValue parse_result)
     \<Rightarrow> int \<times> key_op \<Rightarrow> EncryptionKeyHook \<times> storage \<Rightarrow> EncryptionKeyHook \<times> storage" where
  "key_step encodeKey stringify parse (now, SetKey v persist) hs =
     setKey encodeKey stringify now v persist hs"
| "key_step encodeKey stringify parse (now, ClearKey) hs = clearKey hs"
| "key_step encodeKey stringify parse (now, Relaunch) hs =
     hydrateKey parse now (mountKeyHook, snd hs)"

fun run_key_ops ::
  "(string \<Rightarrow> string) \<Rightarrow> (string StoredValue \<Rightarrow> string) \<Rightarrow> (string \<Rightarrow> string StoredValue parse_result)
     \<Rightarrow> (int \<times> key_op) list \<Rightarrow> EncryptionKeyHook \<times> storage \<Rightarrow> EncryptionKeyHook \<times> storage" where
  "run_key_ops encodeKey stringify parse [] hs = hs"
| "run_key_ops encodeKey stringify parse (op # ops) hs =
     run_key_ops encodeKey stringify parse ops (key_step encodeKey stringify parse op hs)"

text \<open>
  What the cache promises of a read at time \<open>t\<close> after the history \<open>ops\<close>: the result is
  absent, or the encoding of a key set at most \<open>TTL_MS\<close> before \<open>t\<close>.
\<close>

definition fresh_read :: "(string \<Rightarrow> string) \<Rightarrow> (int \<times> key_op) list \<Rightarrow> int \<Rightarrow> string option \<Rightarrow> bool" where
  "fresh_read encodeKey ops t r =
     (case r of
        None \<Rightarrow> True
      | Some k \<Rightarrow>
          list_ex (\<lambda>(ts, op). case op of
                                 SetKey v persist \<Rightarrow> k = encodeKey v \<and> ts \<le> t \<and> t \<le> ts + TTL_MS
                               | ClearKey \<Rightarrow> False
                               | Relaunch \<Rightarrow> False) ops)"

text \<open>The payload that \<open>setKey\<close> persists for the key \<open>v\<close> at time \<open>ts\<close>.\<close>

definition key_payload :: "(string \<Rightarrow> string) \<Rightarrow> int \<Rightarrow> string \<Rightarrow> string StoredValue" where
  "key_payload encodeKey ts v = \<lparr>value_sv = Some (encodeKey v), expiresAt = Some (ts + TTL_MS)\<rparr>"

text \<open>Base-64 of the one key the examples use.\<close>

definition sample_encodeKey :: "string \<Rightarrow> string" where
  "sample_encodeKey v = (if v = ''1234'' then ''MTIzNA=='' else [])"

text \<open>
  The base-64 decoder on the texts of the examples (\<open>c2VjcmV0QQ==\<close> is \<open>secretA\<close>,
  \<open>c2VjcmV0Qg==\<close> is \<open>secretB\<close>); it throws on every other text.
\<close>

definition sample_decodeKey :: "string \<Rightarrow> string option" where
  "sample_decodeKey t =
     (if t = ''MTIzNA=='' then Some ''1234''
      else if t = ''c2VjcmV0QQ=='' then Some ''secretA''
      else if t = ''c2VjcmV0Qg=='' then Some ''secretB''
      else None)"

section \<open>Transport and unauthorized broadcaster: src/services/api.ts\<close>

text \<open>
  An \<open>AxiosError\<close> with the one field the code reads, \<open>error.response?.status\<close>
  (\<open>None\<close> when there is no response). A rejection carries either such an error or
  whatever a handler threw.
\<close>

record AxiosError =
  response_status :: "int option"
  message :: string

datatype thrown = AxiosFailure AxiosError | Exception string

text \<open>
  A handler is a \<open>() => void\<close> acting on the rest of the program \<open>'w\<close>: it returns
  normally (\<open>None\<close>) or throws synchronously (\<open>Some x\<close>). The module variable
  \<open>unauthorizedHandler\<close> holds at most one.
\<close>

type_synonym 'w handler = "'w \<Rightarrow> thrown option \<times> 'w"

definition onUnauthorized :: "'w handler \<Rightarrow> 'w handler option \<Rightarrow> 'w handler option" where
  "onUnauthorized h unauthorizedHandler = Some h"

text \<open>
  The response interceptor's error callback. The result is the value the returned
  promise rejects with, the program state, and the number of times the handler ran.
\<close>

definition responseRejected ::
  "'w handler option \<Rightarrow> AxiosError \<Rightarrow> 'w \<Rightarrow> thrown \<times> 'w \<times> nat" where
  "responseRejected unauthorizedHandler error w =
     (if response_status error = Some 401 then
        (case unauthorizedHandler of
           Some h \<Rightarrow> (case h w of
                        (None, w') \<Rightarrow> (AxiosFailure error, w', 1)
                      | (Some x, w') \<Rightarrow> (x, w', 1))
         | None \<Rightarrow> (AxiosFailure error, w, 0))
      else (AxiosFailure error, w, 0))"

datatype 'd api_outcome = Resolved 'd | Rejected AxiosError

section \<open>Session store: AuthProvider\<close>

definition AUTH_TOKEN_KEY :: string where
  "AUTH_TOKEN_KEY = ''securevault:token''"

definition AUTH_USER_KEY :: string where
  "AUTH_USER_KEY = ''securevault:user''"

definition AUTH_KEY_FLAG :: string where
  "AUTH_KEY_FLAG = ''securevault:key-configured''"

text \<open>
  The provider's React state, the \<open>Authorization\<close> default header of the transport, the
  Durable Store, and the log of requests sent through the transport.
\<close>

record 'u AuthSession =
  token :: "string option"
  user :: "'u option"
  isHydrated :: bool
  encryptionKeyConfigured :: bool
  authorization :: "string option"
  asyncStorage :: storage
  requests :: "string list"

definition initialSession :: "storage \<Rightarrow> 'u AuthSession" where
  "initialSession st =
     \<lparr>token = None, user = None, isHydrated = False, encryptionKeyConfigured = False,
      authorization = None, asyncStorage = st, requests = []\<rparr>"

definition setAuthToken :: "string option \<Rightarrow> 'u AuthSession \<Rightarrow> 'u AuthSession" where
  "setAuthToken tok s =
     (case tok of
        None \<Rightarrow> s\<lparr>authorization := None\<rparr>
      | Some t \<Rightarrow> if t \<noteq> [] then s\<lparr>authorization := Some (''Bearer '' @ t)\<rparr>
                  else s\<lparr>authorization := None\<rparr>)"

definition multiRemove :: "string list \<Rightarrow> storage \<Rightarrow> storage" where
  "multiRemove keys st = (\<lambda>k. if k \<in> set keys then None else st k)"

definition hydrate :: "(string \<Rightarrow> 'u parse_result) \<Rightarrow> 'u AuthSession \<Rightarrow> 'u AuthSession" where
  "hydrate parse s =
     (let nextToken = asyncStorage s AUTH_TOKEN_KEY;
          userJson = asyncStorage s AUTH_USER_KEY;
          keyConfiguredValue = asyncStorage s AUTH_KEY_FLAG;
          s1 = (if truthy nextToken then setAuthToken nextToken (s\<lparr>token := nextToken\<rparr>) else s);
          s2 = (case userJson of
                  None \<Rightarrow> s1
                | Some j \<Rightarrow>
                    if j = [] then s1
                    else (case parse j of
                            Parsed u \<Rightarrow> s1\<lparr>user := u\<rparr>
                          | SyntaxError \<Rightarrow>
                              s1\<lparr>asyncStorage := removeItem AUTH_USER_KEY (asyncStorage s1)\<rparr>));
          s3 = (case keyConfiguredValue of
                  None \<Rightarrow> s2
                | Some f \<Rightarrow> if f = [] then s2 else s2\<lparr>encryptionKeyConfigured := (f = ''true'')\<rparr>)
      in s3\<lparr>isHydrated := True\<rparr>)"

definition completeLogin ::
  "('u \<Rightarrow> string) \<Rightarrow> string \<Rightarrow> 'u \<Rightarrow> bool option \<Rightarrow> 'u AuthSession \<Rightarrow> 'u AuthSession" where
  "completeLogin stringify nextToken nextUser flag s =
     (let keyConfigured = (case flag of None \<Rightarrow> False | Some b \<Rightarrow> b);
          s1 = setAuthToken (Some nextToken)
                 (s\<lparr>token := Some nextToken, user := Some nextUser,
                    encryptionKeyConfigured := keyConfigured\<rparr>)
      in s1\<lparr>asyncStorage := (asyncStorage s1)
               (AUTH_TOKEN_KEY \<mapsto> nextToken,
                AUTH_USER_KEY \<mapsto> stringify nextUser,
                AUTH_KEY_FLAG \<mapsto> (if keyConfigured then ''true'' else ''false''))\<rparr>)"

definition signOut :: "'u AuthSession \<Rightarrow> 'u AuthSession" where
  "signOut s =
     (let s1 = setAuthToken None (s\<lparr>token := None, user := None, encryptionKeyConfigured := False\<rparr>)
      in s1\<lparr>asyncStorage :=
               multiRemove [AUTH_TOKEN_KEY, AUTH_USER_KEY, AUTH_KEY_FLAG] (asyncStorage s1)\<rparr>)"

text \<open>
  \<open>clearSession\<close>, the handler the provider registers: an async function, so it never
  throws synchronously.
\<close>

definition clearSession :: "'u AuthSession handler" where
  "clearSession s = (None, signOut s)"

text \<open>
  \<open>refreshUser\<close>. \<open>outcome\<close> is the backend's answer to \<open>GET /user/fetch\<close>; a rejection
  passes through the response interceptor before it reaches the caller.
\<close>

definition refreshUser ::
  "('u \<Rightarrow> string) \<Rightarrow> 'u AuthSession handler option \<Rightarrow> 'u api_outcome \<Rightarrow> 'u AuthSession
     \<Rightarrow> thrown option \<times> 'u AuthSession" where
  "refreshUser stringify unauthorizedHandler outcome s =
     (if \<not> truthy (token s) then (None, s)
      else
        (let s1 = s\<lparr>requests := requests s @ [''/user/fetch'']\<rparr>
         in case outcome of
              Resolved d \<Rightarrow>
                (None, s1\<lparr>user := Some d,
                          asyncStorage := (asyncStorage s1)(AUTH_USER_KEY \<mapsto> stringify d)\<rparr>)
            | Rejected error \<Rightarrow>
                (case responseRejected unauthorizedHandler error s1 of
                   (x, s2, calls) \<Rightarrow> (Some x, s2))))"

definition setEncryptionKeyConfigured :: "bool \<Rightarrow> 'u AuthSession \<Rightarrow> 'u AuthSession" where
  "setEncryptionKeyConfigured b s =
     s\<lparr>encryptionKeyConfigured := b,
       asyncStorage := (asyncStorage s)(AUTH_KEY_FLAG \<mapsto> (if b then ''true'' else ''false''))\<rparr>"

text \<open>
  The session store and the secret key cache side by side, over the one Durable Store.
  \<open>signOut\<close> is a callback of the provider; the mirror \<open>rawKey\<close> is state of the hook in
  the screens, and \<open>signOut\<close> neither calls \<open>clearKey\<close> nor names \<open>STORAGE_KEY\<close>.
\<close>

record 'u App =
  session :: "'u AuthSession"
  keyCache :: EncryptionKeyHook

definition appSignOut :: "'u App \<Rightarrow> 'u App" where
  "appSignOut a = a\<lparr>session := signOut (session a)\<rparr>"

section \<open>Screens: passwords.tsx and the notes screen\<close>

text \<open>
  Both screens hold their own instance of the key hook over the Durable Store, the
  \<open>promptKey\<close> flag, and the toasts they have shown. The decrypt endpoints answer with a
  string or with an object holding one; \<open>decodeKey\<close> (a parameter) is \<open>None\<close> where the
  base-64 decoder throws. The outcome of the remote call is an input of each handler;
  what the response interceptor does to the session on the way is \<open>responseRejected\<close>.
\<close>

record KeyedScreen =
  keyHook :: EncryptionKeyHook
  deviceStorage :: storage
  promptKey :: bool
  toasts :: "string list"

datatype secret_data = Text string | Object string

definition screenClearKey :: "'a KeyedScreen_scheme \<Rightarrow> 'a KeyedScreen_scheme" where
  "screenClearKey s =
     (case clearKey (keyHook s, deviceStorage s) of
        (h, st) \<Rightarrow> s\<lparr>keyHook := h, deviceStorage := st\<rparr>)"

text \<open>
  The passwords screen: \<open>revealedPasswords\<close> is React state, \<open>hideTimers\<close> the ref from
  record id to timer handle. The host's timer queue is \<open>pendingTimers\<close>: each pending
  timer with the record id whose revealed password its callback deletes. \<open>setTimeout\<close>
  hands out the handles \<open>nextTimer\<close>, \<open>nextTimer + 1\<close>, ... The delay of 5000 ms decides
  only when the host fires a timer; firing is an event of its own (\<open>fireTimer\<close>).
\<close>

record PasswordsScreen = KeyedScreen +
  revealedPasswords :: "string \<rightharpoonup> string"
  hideTimers :: "string \<rightharpoonup> nat"
  pendingTimers :: "(nat \<times> string) list"
  nextTimer :: nat

definition initialPasswords :: "storage \<Rightarrow> PasswordsScreen" where
  "initialPasswords st =
     \<lparr>keyHook = mountKeyHook, deviceStorage = st, promptKey = False, toasts = [],
      revealedPasswords = Map.empty, hideTimers = Map.empty, pendingTimers = [], nextTimer = 1\<rparr>"

definition clearTimeout :: "nat \<Rightarrow> PasswordsScreen \<Rightarrow> PasswordsScreen" where
  "clearTimeout h s = s\<lparr>pendingTimers := filter (\<lambda>(h', i). h' \<noteq> h) (pendingTimers s)\<rparr>"

text \<open>
  The success path of \<open>handleReveal\<close> after the secret is decoded: publish it, cancel the
  timer recorded for the id (the test \<open>if (hideTimers.current[id])\<close> is false for a
  missing handle and for the handle 0), record and start a new one.
\<close>

definition reveal :: "string \<Rightarrow> string \<Rightarrow> PasswordsScreen \<Rightarrow> PasswordsScreen" where
  "reveal entry_id secret s =
     (let s1 = s\<lparr>revealedPasswords := (revealedPasswords s)(entry_id \<mapsto> secret)\<rparr>;
          s2 = (case hideTimers s1 entry_id of
                  None \<Rightarrow> s1
                | Some h \<Rightarrow> if h \<noteq> 0 then clearTimeout h s1 else s1);
          h' = nextTimer s2
      in s2\<lparr>hideTimers := (hideTimers s2)(entry_id \<mapsto> h'),
            pendingTimers := pendingTimers s2 @ [(h', entry_id)],
            nextTimer := Suc h'\<rparr>)"

text \<open>A pending timer fires: it leaves the queue and its callback deletes the entry.\<close>

definition fireTimer :: "nat \<Rightarrow> PasswordsScreen \<Rightarrow> PasswordsScreen" where
  "fireTimer h s =
     (case map_of (pendingTimers s) h of
        None \<Rightarrow> s
      | Some i \<Rightarrow> (clearTimeout h s)\<lparr>revealedPasswords := (revealedPasswords s)(i := None)\<rparr>)"

text \<open>The cleanup of the mount effect: every handle in \<open>hideTimers\<close> is cleared.\<close>

definition unmountPasswords :: "PasswordsScreen \<Rightarrow> PasswordsScreen" where
  "unmountPasswords s =
     s\<lparr>pendingTimers := filter (\<lambda>(h, i). h \<notin> ran (hideTimers s)) (pendingTimers s)\<rparr>"

definition handleReveal ::
  "(string \<Rightarrow> string option) \<Rightarrow> string \<Rightarrow> secret_data api_outcome \<Rightarrow> PasswordsScreen
     \<Rightarrow> PasswordsScreen" where
  "handleReveal decodeKey entry_id outcome s =
     (if \<not> truthy (encodedKey (keyHook s)) then s\<lparr>promptKey := True\<rparr>
      else
        (case outcome of
           Resolved d \<Rightarrow>
             (case decodeKey (case d of Text t \<Rightarrow> t | Object pw \<Rightarrow> pw) of
                Some secret \<Rightarrow> reveal entry_id secret s
              | None \<Rightarrow> s\<lparr>toasts := toasts s @ [''Unable to decrypt password.'']\<rparr>)
         | Rejected error \<Rightarrow>
             (let s1 = s\<lparr>toasts := toasts s @ [''Unable to decrypt password.'']\<rparr>
              in if response_status error = Some 401 then screenClearKey s1 else s1)))"

text \<open>Number of pending timers whose callback is for the record \<open>i\<close>.\<close>

definition pendingFor :: "string \<Rightarrow> PasswordsScreen \<Rightarrow> nat" where
  "pendingFor i s = length (filter (\<lambda>(h, j). j = i) (pendingTimers s))"

text \<open>
  The hook's operations as they act on a screen that holds the hook: the mount effect
  (\<open>hydrateKey\<close>) and \<open>setKey\<close>, which the screen's key prompt calls.
\<close>

definition screenHydrateKey ::
  "(string \<Rightarrow> string StoredValue parse_result) \<Rightarrow> int \<Rightarrow> 'a KeyedScreen_scheme
     \<Rightarrow> 'a KeyedScreen_scheme" where
  "screenHydrateKey parse now s =
     (case hydrateKey parse now (keyHook s, deviceStorage s) of
        (h, st) \<Rightarrow> s\<lparr>keyHook := h, deviceStorage := st\<rparr>)"

definition screenSetKey ::
  "(string \<Rightarrow> string) \<Rightarrow> (string StoredValue \<Rightarrow> string) \<Rightarrow> int \<Rightarrow> string \<Rightarrow> bool
     \<Rightarrow> 'a KeyedScreen_scheme \<Rightarrow> 'a KeyedScreen_scheme" where
  "screenSetKey encodeKey stringify now v persist s =
     (case setKey encodeKey stringify now v persist (keyHook s, deviceStorage s) of
        (h, st) \<Rightarrow> s\<lparr>keyHook := h, deviceStorage := st\<rparr>)"

text \<open>
  Events of the passwords screen, and the states it reaches from its mount: a call of
  \<open>handleReveal\<close> with the outcome of its remote call, a timer coming due, the unmount
  cleanup, and the hook's hydration, \<open>setKey\<close> and \<open>clearKey\<close>.
\<close>

datatype screen_event =
    HandleReveal string "secret_data api_outcome"
  | Fire nat
  | Unmount
  | HookHydrate int
  | HookSetKey int string bool
  | HookClearKey

fun screen_step ::
  "(string \<Rightarrow> string) \<Rightarrow> (string StoredValue \<Rightarrow> string) \<Rightarrow> (string \<Rightarrow> string StoredValue parse_result)
     \<Rightarrow> (string \<Rightarrow> string option) \<Rightarrow> screen_event \<Rightarrow> PasswordsScreen \<Rightarrow> PasswordsScreen" where
  "screen_step encodeKey stringify parse decodeKey (HandleReveal i outcome) s =
     handleReveal decodeKey i outcome s"
| "screen_step encodeKey stringify parse decodeKey (Fire h) s = fireTimer h s"
| "screen_step encodeKey stringify parse decodeKey Unmount s = unmountPasswords s"
| "screen_step encodeKey stringify parse decodeKey (HookHydrate now) s =
     screenHydrateKey parse now s"
| "screen_step encodeKey stringify parse decodeKey (HookSetKey now v persist) s =
     screenSetKey encodeKey stringify now v persist s"
| "screen_step encodeKey stringify parse decodeKey HookClearKey s = screenClearKey s"

fun run_screen ::
  "(string \<Rightarrow> string) \<Rightarrow> (string StoredValue \<Rightarrow> string) \<Rightarrow> (string \<Rightarrow> string StoredValue parse_result)
     \<Rightarrow> (string \<Rightarrow> string option) \<Rightarrow> screen_event list \<Rightarrow> PasswordsScreen \<Rightarrow> PasswordsScreen" where
  "run_screen encodeKey stringify parse decodeKey [] s = s"
| "run_screen encodeKey stringify parse decodeKey (e # es) s =
     run_screen encodeKey stringify parse decodeKey es
       (screen_step encodeKey stringify parse decodeKey e s)"

text \<open>
  Events other than a resolved decrypt call of \<open>handleReveal\<close> for the record \<open>i\<close>.
\<close>

fun other_than :: "string \<Rightarrow> screen_event \<Rightarrow> bool" where
  "other_than i (HandleReveal j (Resolved d)) = (j \<noteq> i)"
| "other_than i (HandleReveal j (Rejected error)) = True"
| "other_than i (Fire h) = True"
| "other_than i Unmount = True"
| "other_than i (HookHydrate now) = True"
| "other_than i (HookSetKey now v persist) = True"
| "other_than i HookClearKey = True"

text \<open>The notes screen, and its \<open>decryptNote\<close>.\<close>

record NotesScreen = KeyedScreen +
  activeContent :: "string \<rightharpoonup> string"

definition decryptNote ::
  "(string \<Rightarrow> string option) \<Rightarrow> string \<Rightarrow> secret_data api_outcome \<Rightarrow> NotesScreen \<Rightarrow> NotesScreen" where
  "decryptNote decodeKey noteId outcome s =
     (if \<not> truthy (encodedKey (keyHook s)) then s\<lparr>promptKey := True\<rparr>
      else
        (case outcome of
           Resolved d \<Rightarrow>
             (case (case d of Text t \<Rightarrow> decodeKey t | Object c \<Rightarrow> Some c) of
                Some decrypted \<Rightarrow> s\<lparr>activeContent := (activeContent s)(noteId \<mapsto> decrypted)\<rparr>
              | None \<Rightarrow> s\<lparr>toasts := toasts s @ [''Unable to decrypt note.'']\<rparr>)
         | Rejected error \<Rightarrow> s\<lparr>toasts := toasts s @ [''Unable to decrypt note.'']\<rparr>))"

section \<open>Example data\<close>

text \<open>
  \<open>AuthUser\<close> of the provider, one user, and the table of \<open>JSON.stringify\<close> and
  \<open>JSON.parse\<close> on that user's profile; the parser rejects every other text.
\<close>

record AuthUser =
  id_au :: string
  name :: string
  email :: string
  avatarUrl :: "string option"
  dateOfBirth :: "string option"
  secretAnswer :: "string option"

definition sample_user :: AuthUser where
  "sample_user =
     \<lparr>id_au = ''u1'', name = ''Ann'', email = ''ann@example.com'',
      avatarUrl = None, dateOfBirth = None, secretAnswer = None\<rparr>"

definition sample_stringifyUser :: "AuthUser \<Rightarrow> string" where
  "sample_stringifyUser u =
     (if u = sample_user then ''{\"id\":\"u1\",\"name\":\"Ann\",\"email\":\"ann@example.com\"}''
      else ''{}'')"

definition sample_parseUser :: "string \<Rightarrow> AuthUser parse_result" where
  "sample_parseUser raw =
     (if raw = ''{\"id\":\"u1\",\"name\":\"Ann\",\"email\":\"ann@example.com\"}''
        then Parsed (Some sample_user)
      else if raw = ''null'' then Parsed None
      else SyntaxError)"

text \<open>A signed-in session with the token \<open>abc\<close> whose profile is not loaded yet.\<close>

definition sample_session :: "AuthUser AuthSession" where
  "sample_session =
     \<lparr>token = Some ''abc'', user = None, isHydrated = True,
      encryptionKeyConfigured = False, authorization = Some ''Bearer abc'',
      asyncStorage = [AUTH_TOKEN_KEY \<mapsto> ''abc''], requests = []\<rparr>"

text \<open>
  The passwords screen after its mount and one \<open>setKey\<close> of the key \<open>1234\<close> at time 0.
\<close>

definition sample_passwords :: PasswordsScreen where
  "sample_passwords =
     run_screen sample_encodeKey sample_stringify sample_parse sample_decodeKey
       [HookSetKey 0 ''1234'' True] (initialPasswords Map.empty)"

section \<open>Invariants\<close>

text \<open>
  The entry under \<open>STORAGE_KEY\<close> is absent or is the payload some \<open>setKey\<close> of the
  history wrote.
\<close>

definition stored_ok ::
  "(string \<Rightarrow> string) \<Rightarrow> (string StoredValue \<Rightarrow> string) \<Rightarrow> (int \<times> key_op) list \<Rightarrow> storage \<Rightarrow> bool" where
  "stored_ok encodeKey stringify ops st =
     (case st STORAGE_KEY of
        None \<Rightarrow> True
      | Some raw \<Rightarrow>
          list_ex (\<lambda>(ts, op). case op of
                                 SetKey v persist \<Rightarrow> raw = stringify (key_payload encodeKey ts v)
                               | ClearKey \<Rightarrow> False
                               | Relaunch \<Rightarrow> False) ops)"

text \<open>
  What a history needs from the clock and the platform's JSON for a read at time \<open>t\<close>:
  the clock is non-negative and does not run past \<open>t\<close>, and each payload written by
  \<open>setKey\<close> is a non-empty text that parses back to itself.
\<close>

definition codec_ok ::
  "(string \<Rightarrow> string) \<Rightarrow> (string StoredValue \<Rightarrow> string) \<Rightarrow> (string \<Rightarrow> string StoredValue parse_result)
     \<Rightarrow> int \<Rightarrow> int \<times> key_op \<Rightarrow> bool" where
  "codec_ok encodeKey stringify parse t x =
     (case x of
        (ts, SetKey v persist) \<Rightarrow>
           0 \<le> ts \<and> ts \<le> t \<and> stringify (key_payload encodeKey ts v) \<noteq> []
           \<and> parse (stringify (key_payload encodeKey ts v)) = Parsed (Some (key_payload encodeKey ts v))
      | (ts, ClearKey) \<Rightarrow> True
      | (ts, Relaunch) \<Rightarrow> True)"

text \<open>
  Every pending timer has a non-zero handle below \<open>nextTimer\<close>, no two share a handle,
  and each is the timer that \<open>hideTimers\<close> records for its record id.
\<close>

definition timers_ok :: "PasswordsScreen \<Rightarrow> bool" where
  "timers_ok s =
     (0 < nextTimer s \<and> distinct (map fst (pendingTimers s))
      \<and> list_all (\<lambda>(h, i). h \<noteq> 0 \<and> h < nextTimer s \<and> hideTimers s i = Some h) (pendingTimers s))"

section \<open>TTL cache: expiry and zero TTL\<close>

text \<open>
  C1, as amended. For every persisted entry whose \<open>expiresAt\<close> is set (and not the
  number 0), \<open>getItemWithTTL\<close> called at any time strictly after \<open>expiresAt\<close> returns
  absent and removes the entry, so that a raw read of the store then finds nothing.
  Called at the instant \<open>now = expiresAt\<close>, it returns the entry's value and leaves the
  store as it is.
\<close>

theorem getItemWithTTL_expired:
  assumes "st key = Some raw" and "raw \<noteq> []" and "parse raw = Parsed (Some p)"
    and "expiresAt p = Some e" and "e \<noteq> 0"
  shows "(e < now \<longrightarrow>
            getItemWithTTL parse now key st = (None, st(key := None))
            \<and> snd (getItemWithTTL parse now key st) key = None)
         \<and> getItemWithTTL parse e key st = (value_sv p, st)"
  using assms by (simp add: getItemWithTTL_def expired_def)

text \<open>
  C1, witness: the key \<open>1234\<close> stored at time 0 with a TTL of 300000 ms, read at
  300001 ms and at 300000 ms.
\<close>

theorem getItemWithTTL_expired_witness:
  "[STORAGE_KEY \<mapsto> ''{\"value\":\"MTIzNA==\",\"expiresAt\":300000}''] STORAGE_KEY
     = Some ''{\"value\":\"MTIzNA==\",\"expiresAt\":300000}''
   \<and> ''{\"value\":\"MTIzNA==\",\"expiresAt\":300000}'' \<noteq> []
   \<and> sample_parse ''{\"value\":\"MTIzNA==\",\"expiresAt\":300000}''
     = Parsed (Some \<lparr>value_sv = Some ''MTIzNA=='', expiresAt = Some 300000\<rparr>)
   \<and> (300000 :: int) \<noteq> 0 \<and> (300000 :: int) < 300001
   \<and> getItemWithTTL sample_parse 300001 STORAGE_KEY
        [STORAGE_KEY \<mapsto> ''{\"value\":\"MTIzNA==\",\"expiresAt\":300000}'']
     = (None, Map.empty)
   \<and> getItemWithTTL sample_parse 300000 STORAGE_KEY
        [STORAGE_KEY \<mapsto> ''{\"value\":\"MTIzNA==\",\"expiresAt\":300000}'']
     = (Some ''MTIzNA=='', [STORAGE_KEY \<mapsto> ''{\"value\":\"MTIzNA==\",\"expiresAt\":300000}''])"
proof -
  let ?raw = "''{\"value\":\"MTIzNA==\",\"expiresAt\":300000}''"
  let ?st = "[STORAGE_KEY \<mapsto> ?raw]"
  let ?p = "\<lparr>value_sv = Some ''MTIzNA=='', expiresAt = Some (300000 :: int)\<rparr>"
  have a: "?st STORAGE_KEY = Some ?raw" by simp
  have b: "?raw \<noteq> []" by simp
  have c: "sample_parse ?raw = Parsed (Some ?p)" by (simp add: sample_parse_def)
  have d: "expiresAt ?p = Some 300000" by simp
  have e: "(300000 :: int) \<noteq> 0" by simp
  have f: "(300000 :: int) < 300001" by simp
  note t = getItemWithTTL_expired [of ?st STORAGE_KEY ?raw sample_parse ?p 300000 300001,
             OF a b c d e]
  have g: "getItemWithTTL sample_parse 300001 STORAGE_KEY ?st = (None, ?st(STORAGE_KEY := None))"
    using conjunct1 [OF t] f by blast
  have g': "getItemWithTTL sample_parse 300001 STORAGE_KEY ?st = (None, Map.empty)"
    unfolding g by simp
  have h: "getItemWithTTL sample_parse 300000 STORAGE_KEY ?st = (Some ''MTIzNA=='', ?st)"
    using conjunct2 [OF t] by simp
  show ?thesis by (intro conjI a b c e f g' h)
qed

text \<open>
  C1, counterexample to the claim as stated: at the instant \<open>now = expiresAt\<close> the
  test \<open>expiresAt < now\<close> is false, so the read returns the value and the entry stays
  in the store.
\<close>

theorem getItemWithTTL_boundary_counterexample:
  "getItemWithTTL sample_parse 300000 STORAGE_KEY
      (setItemWithTTL sample_stringify 0 STORAGE_KEY ''MTIzNA=='' (Some 300000) Map.empty)
    = (Some ''MTIzNA=='',
       [STORAGE_KEY \<mapsto> ''{\"value\":\"MTIzNA==\",\"expiresAt\":300000}''])"
  by (simp add: getItemWithTTL_def setItemWithTTL_def sample_parse_def sample_stringify_def
        expired_def)

text \<open>
  Set, then get: an entry written with a non-zero TTL on a clock that makes \<open>expiresAt\<close>
  non-zero is returned up to and at \<open>expiresAt\<close> and purged after it.
\<close>

lemma set_then_get:
  assumes "ttl \<noteq> 0" and "now0 + ttl \<noteq> 0"
    and "stringify \<lparr>value_sv = Some v, expiresAt = Some (now0 + ttl)\<rparr> \<noteq> []"
    and "parse (stringify \<lparr>value_sv = Some v, expiresAt = Some (now0 + ttl)\<rparr>)
           = Parsed (Some \<lparr>value_sv = Some v, expiresAt = Some (now0 + ttl)\<rparr>)"
  shows "getItemWithTTL parse now key (setItemWithTTL stringify now0 key v (Some ttl) st)
           = (if now0 + ttl < now then (None, st(key := None))
              else (Some v, setItemWithTTL stringify now0 key v (Some ttl) st))"
  using assms by (simp add: getItemWithTTL_def setItemWithTTL_def expired_def)

text \<open>
  C10. \<open>setItemWithTTL\<close> with a TTL argument of 0 stores the payload without
  \<open>expiresAt\<close>, and a later \<open>getItemWithTTL\<close>, at any time, returns the value and
  leaves the entry in place: a zero TTL means that the entry never expires. The
  platform's JSON is assumed to write that payload as a non-empty text and read it back.
\<close>

theorem zero_ttl_never_expires:
  assumes "parse (stringify \<lparr>value_sv = Some v, expiresAt = None\<rparr>)
             = Parsed (Some \<lparr>value_sv = Some v, expiresAt = None\<rparr>)"
    and "stringify \<lparr>value_sv = Some v, expiresAt = None\<rparr> \<noteq> []"
  shows "setItemWithTTL stringify now key v (Some 0) st
           = st(key \<mapsto> stringify \<lparr>value_sv = Some v, expiresAt = None\<rparr>)
         \<and> getItemWithTTL parse later key (setItemWithTTL stringify now key v (Some 0) st)
           = (Some v, setItemWithTTL stringify now key v (Some 0) st)"
  using assms by (simp add: getItemWithTTL_def setItemWithTTL_def expired_def)

text \<open>
  C10, witness: the encoded key stored at time 1000 with TTL 0 and read ten years of
  milliseconds later.
\<close>

theorem zero_ttl_never_expires_witness:
  "sample_parse (sample_stringify \<lparr>value_sv = Some ''MTIzNA=='', expiresAt = None\<rparr>)
     = Parsed (Some \<lparr>value_sv = Some ''MTIzNA=='', expiresAt = None\<rparr>)
   \<and> sample_stringify \<lparr>value_sv = Some ''MTIzNA=='', expiresAt = None\<rparr> \<noteq> []
   \<and> setItemWithTTL sample_stringify 1000 STORAGE_KEY ''MTIzNA=='' (Some 0) Map.empty
     = [STORAGE_KEY \<mapsto> ''{\"value\":\"MTIzNA==\"}'']
   \<and> getItemWithTTL sample_parse 315360000000 STORAGE_KEY
        (setItemWithTTL sample_stringify 1000 STORAGE_KEY ''MTIzNA=='' (Some 0) Map.empty)
     = (Some ''MTIzNA=='', [STORAGE_KEY \<mapsto> ''{\"value\":\"MTIzNA==\"}''])"
proof -
  have s: "sample_stringify \<lparr>value_sv = Some ''MTIzNA=='', expiresAt = None\<rparr>
             = ''{\"value\":\"MTIzNA==\"}''"
    by (simp add: sample_stringify_def)
  have a: "sample_parse (sample_stringify \<lparr>value_sv = Some ''MTIzNA=='', expiresAt = None\<rparr>)
             = Parsed (Some \<lparr>value_sv = Some ''MTIzNA=='', expiresAt = None\<rparr>)"
    by (simp add: s sample_parse_def)
  have b: "sample_stringify \<lparr>value_sv = Some ''MTIzNA=='', expiresAt = None\<rparr> \<noteq> []"
    by (simp add: s)
  note t = zero_ttl_never_expires
         [of sample_parse sample_stringify "''MTIzNA==''" 1000 STORAGE_KEY Map.empty 315360000000,
          OF a b]
  have t1: "setItemWithTTL sample_stringify 1000 STORAGE_KEY ''MTIzNA=='' (Some 0) Map.empty
              = [STORAGE_KEY \<mapsto> ''{\"value\":\"MTIzNA==\"}'']"
    using conjunct1 [OF t] by (simp only: s)
  have t2: "getItemWithTTL sample_parse 315360000000 STORAGE_KEY
              (setItemWithTTL sample_stringify 1000 STORAGE_KEY ''MTIzNA=='' (Some 0) Map.empty)
            = (Some ''MTIzNA=='', [STORAGE_KEY \<mapsto> ''{\"value\":\"MTIzNA==\"}''])"
    using conjunct2 [OF t] by (simp only: t1)
  show ?thesis by (intro conjI a b t1 t2)
qed

section \<open>Secret key cache: age of the key a caller sees\<close>

lemma getItemWithTTL_store:
  "snd (getItemWithTTL parse now key st) = st
   \<or> snd (getItemWithTTL parse now key st) = st(key := None)"
  by (simp add: getItemWithTTL_def split: option.splits parse_result.splits)

lemma setKey_store:
  "snd (setKey enc str ts v persist hs)
     = (if persist then (snd hs)(STORAGE_KEY \<mapsto> str (key_payload enc ts v)) else snd hs)"
  by (simp add: setKey_def Let_def setItemWithTTL_def key_payload_def TTL_MS_def)

lemma stored_ok_step:
  assumes "(ts, op) \<in> set ops" and "stored_ok enc str ops (snd hs)"
  shows "stored_ok enc str ops (snd (key_step enc str parse (ts, op) hs))"
proof (cases op)
  case (SetKey v persist)
  have "list_ex (\<lambda>(ts', op'). case op' of
                   SetKey v' persist' \<Rightarrow> str (key_payload enc ts v) = str (key_payload enc ts' v')
                 | ClearKey \<Rightarrow> False | Relaunch \<Rightarrow> False) ops"
    unfolding list_ex_iff using assms(1) SetKey by (intro bexI [of _ "(ts, op)"]) simp_all
  then show ?thesis
    using assms(2) SetKey by (simp add: setKey_store stored_ok_def)
next
  case ClearKey
  then show ?thesis by (simp add: clearKey_def removeItem_def stored_ok_def)
next
  case Relaunch
  then show ?thesis
    using assms(2) getItemWithTTL_store [of parse ts STORAGE_KEY "snd hs"]
    by (auto simp: hydrateKey_def stored_ok_def split: prod.splits)
qed

lemma stored_ok_run:
  assumes "set ops' \<subseteq> set ops" and "stored_ok enc str ops (snd hs)"
  shows "stored_ok enc str ops (snd (run_key_ops enc str parse ops' hs))"
  using assms
proof (induction ops' arbitrary: hs)
  case Nil
  then show ?case by simp
next
  case (Cons op ops')
  obtain ts k where op: "op = (ts, k)" by (cases op)
  have "stored_ok enc str ops (snd (key_step enc str parse op hs))"
    unfolding op using Cons.prems op by (intro stored_ok_step) simp_all
  with Cons show ?case by simp
qed

lemma hydrate_fresh:
  assumes ok: "stored_ok enc str ops st"
    and codec: "list_all (codec_ok enc str parse t) ops"
  shows "fresh_read enc ops t (fst (getItemWithTTL parse t STORAGE_KEY st))"
proof (cases "st STORAGE_KEY")
  case None
  then show ?thesis by (simp add: getItemWithTTL_def fresh_read_def)
next
  case (Some raw)
  with ok obtain ts v persist where mem: "(ts, SetKey v persist) \<in> set ops"
    and raw: "raw = str (key_payload enc ts v)"
    by (auto simp: stored_ok_def list_ex_iff split: key_op.splits)
  from codec mem have c: "0 \<le> ts" "ts \<le> t" "str (key_payload enc ts v) \<noteq> []"
    "parse (str (key_payload enc ts v)) = Parsed (Some (key_payload enc ts v))"
    by (auto simp: list_all_iff codec_ok_def)
  show ?thesis
  proof (cases "ts + TTL_MS < t")
    case True
    then show ?thesis using Some raw c
      by (simp add: getItemWithTTL_def expired_def key_payload_def TTL_MS_def fresh_read_def)
  next
    case False
    then have v: "fst (getItemWithTTL parse t STORAGE_KEY st) = Some (enc v)"
      using Some raw c
      by (simp add: getItemWithTTL_def expired_def key_payload_def)
    have "list_ex (\<lambda>(ts, op). case op of
                                 SetKey v' persist \<Rightarrow> enc v = enc v' \<and> ts \<le> t \<and> t \<le> ts + TTL_MS
                               | ClearKey \<Rightarrow> False
                               | Relaunch \<Rightarrow> False) ops"
      unfolding list_ex_iff using mem c False
      by (intro bexI [of _ "(ts, SetKey v persist)"]) simp_all
    then show ?thesis by (simp add: v fresh_read_def)
  qed
qed

text \<open>
  C2, as amended. A read that goes through the TTL cache, the hydration read of a
  freshly mounted hook, never yields a key older than the TTL: after any history of
  \<open>setKey\<close>, \<open>clearKey\<close> and relaunches that starts with no cached key, the key hydrated
  at time \<open>t\<close> is absent or the encoding of a key set at most \<open>TTL_MS\<close> before \<open>t\<close>. A read
  served from the in-memory mirror carries no age: after \<open>setKey\<close> the mirror holds the
  encoded key, whatever the clock says later.
\<close>

theorem relaunch_read_fresh:
  assumes "st0 STORAGE_KEY = None"
    and "list_all (codec_ok encodeKey stringify parse t) ops"
  shows "fresh_read encodeKey ops t
           (encodedKey (fst (key_step encodeKey stringify parse (t, Relaunch)
              (run_key_ops encodeKey stringify parse ops (h0, st0)))))
         \<and> encodedKey (fst (setKey encodeKey stringify now v persist hs)) = Some (encodeKey v)"
proof -
  have "stored_ok encodeKey stringify ops (snd (h0, st0))"
    using assms(1) by (simp add: stored_ok_def)
  then have "stored_ok encodeKey stringify ops
               (snd (run_key_ops encodeKey stringify parse ops (h0, st0)))"
    by (intro stored_ok_run) simp_all
  from hydrate_fresh [OF this assms(2)] show ?thesis
    by (simp add: hydrateKey_def encodedKey_def setKey_def Let_def case_prod_beta)
qed

text \<open>
  C2, witness: the key \<open>1234\<close> set at time 0, the process relaunched at 299999 ms; the
  hydrated key is the one set 299999 ms earlier.
\<close>

theorem relaunch_read_fresh_witness:
  "Map.empty STORAGE_KEY = (None :: string option)
   \<and> list_all (codec_ok sample_encodeKey sample_stringify sample_parse 299999)
       [(0, SetKey ''1234'' True)]
   \<and> fresh_read sample_encodeKey [(0, SetKey ''1234'' True)] 299999
       (encodedKey (fst (key_step sample_encodeKey sample_stringify sample_parse (299999, Relaunch)
          (run_key_ops sample_encodeKey sample_stringify sample_parse [(0, SetKey ''1234'' True)]
             (mountKeyHook, Map.empty)))))
   \<and> encodedKey (fst (key_step sample_encodeKey sample_stringify sample_parse (299999, Relaunch)
        (run_key_ops sample_encodeKey sample_stringify sample_parse [(0, SetKey ''1234'' True)]
           (mountKeyHook, Map.empty)))) = Some ''MTIzNA==''"
proof -
  have c: "list_all (codec_ok sample_encodeKey sample_stringify sample_parse 299999)
             [(0, SetKey ''1234'' True)]"
    by (simp add: codec_ok_def key_payload_def sample_encodeKey_def sample_stringify_def
          sample_parse_def TTL_MS_def)
  have e: "Map.empty STORAGE_KEY = (None :: string option)" by simp
  have v: "encodedKey (fst (key_step sample_encodeKey sample_stringify sample_parse (299999, Relaunch)
        (run_key_ops sample_encodeKey sample_stringify sample_parse [(0, SetKey ''1234'' True)]
           (mountKeyHook, Map.empty)))) = Some ''MTIzNA==''"
    by (simp add: hydrateKey_def setKey_def Let_def setItemWithTTL_def getItemWithTTL_def
          expired_def encodedKey_def sample_encodeKey_def sample_stringify_def sample_parse_def
          TTL_MS_def STORAGE_KEY_def mountKeyHook_def)
  from relaunch_read_fresh [OF e c, of mountKeyHook] c v show ?thesis by simp
qed

text \<open>
  C2, counterexample to the claim as stated: the key \<open>1234\<close> set at time 0 is still
  what the mirror answers at 600000 ms, ten minutes later, twice the TTL.
\<close>

theorem mirror_stale_counterexample:
  "encodedKey (fst (run_key_ops sample_encodeKey sample_stringify sample_parse
       [(0, SetKey ''1234'' True)] (mountKeyHook, Map.empty))) = Some ''MTIzNA==''
   \<and> \<not> fresh_read sample_encodeKey [(0, SetKey ''1234'' True)] 600000
        (encodedKey (fst (run_key_ops sample_encodeKey sample_stringify sample_parse
           [(0, SetKey ''1234'' True)] (mountKeyHook, Map.empty))))"
  by (simp add: setKey_def Let_def encodedKey_def sample_encodeKey_def fresh_read_def TTL_MS_def)

section \<open>Session store: sign-out, teardown and refresh\<close>

lemma keys_distinct:
  "AUTH_TOKEN_KEY \<noteq> AUTH_USER_KEY" "AUTH_TOKEN_KEY \<noteq> AUTH_KEY_FLAG"
  "AUTH_USER_KEY \<noteq> AUTH_KEY_FLAG" "STORAGE_KEY \<noteq> AUTH_TOKEN_KEY"
  "STORAGE_KEY \<noteq> AUTH_USER_KEY" "STORAGE_KEY \<noteq> AUTH_KEY_FLAG"
  by (simp_all add: AUTH_TOKEN_KEY_def AUTH_USER_KEY_def AUTH_KEY_FLAG_def STORAGE_KEY_def)

lemma signOut_fields:
  "token (signOut s) = None" "user (signOut s) = None" "\<not> encryptionKeyConfigured (signOut s)"
  "authorization (signOut s) = None" "isHydrated (signOut s) = isHydrated s"
  "requests (signOut s) = requests s"
  "asyncStorage (signOut s)
     = multiRemove [AUTH_TOKEN_KEY, AUTH_USER_KEY, AUTH_KEY_FLAG] (asyncStorage s)"
  by (simp_all add: signOut_def setAuthToken_def Let_def)

lemma multiRemove_idem: "multiRemove ks (multiRemove ks st) = multiRemove ks st"
  by (auto simp: multiRemove_def)

lemma signOut_idem: "signOut (signOut s) = signOut s"
  by (simp add: signOut_def setAuthToken_def Let_def multiRemove_idem)

text \<open>
  C3, as amended. The cached encryption key is destroyed by \<open>clearKey\<close>, which empties
  the mirror and removes the entry under \<open>STORAGE_KEY\<close>. \<open>signOut\<close> does not destroy it:
  it clears the token, the user, the key-configured flag and the authorization header,
  removes the three session keys from the store, and leaves the entry under
  \<open>STORAGE_KEY\<close> and the mirror as they were.
\<close>

theorem signOut_keeps_cached_key:
  "token (session (appSignOut a)) = None \<and> user (session (appSignOut a)) = None
   \<and> \<not> encryptionKeyConfigured (session (appSignOut a))
   \<and> authorization (session (appSignOut a)) = None
   \<and> asyncStorage (session (appSignOut a)) AUTH_TOKEN_KEY = None
   \<and> asyncStorage (session (appSignOut a)) AUTH_USER_KEY = None
   \<and> asyncStorage (session (appSignOut a)) AUTH_KEY_FLAG = None
   \<and> asyncStorage (session (appSignOut a)) STORAGE_KEY = asyncStorage (session a) STORAGE_KEY
   \<and> keyCache (appSignOut a) = keyCache a
   \<and> rawKey (fst (clearKey hs)) = None \<and> snd (clearKey hs) STORAGE_KEY = None"
  by (simp add: appSignOut_def signOut_fields multiRemove_def keys_distinct clearKey_def
        removeItem_def)

text \<open>
  C3, counterexample to the claim as stated: a state with the encoded key in the mirror
  and persisted under \<open>STORAGE_KEY\<close>; after \<open>signOut\<close> both are still there.
\<close>

theorem signOut_cached_key_counterexample:
  "rawKey (keyCache (appSignOut
      \<lparr>session = initialSession
                   [STORAGE_KEY \<mapsto> ''{\"value\":\"MTIzNA==\",\"expiresAt\":300000}''],
       keyCache = \<lparr>rawKey = Some ''MTIzNA=='', isKeyHydrated = True\<rparr>\<rparr>)) = Some ''MTIzNA==''
   \<and> asyncStorage (session (appSignOut
      \<lparr>session = initialSession
                   [STORAGE_KEY \<mapsto> ''{\"value\":\"MTIzNA==\",\"expiresAt\":300000}''],
       keyCache = \<lparr>rawKey = Some ''MTIzNA=='', isKeyHydrated = True\<rparr>\<rparr>)) STORAGE_KEY
     = Some ''{\"value\":\"MTIzNA==\",\"expiresAt\":300000}''"
  by (simp add: appSignOut_def signOut_fields multiRemove_def keys_distinct initialSession_def)

text \<open>
  C5, as amended. The interceptor's error callback invokes the registered handler
  exactly when the response status is 401 and a handler is registered, once, and
  otherwise invokes nothing. When the handler returns normally, as the registered
  \<open>clearSession\<close> always does, the original error is then propagated unchanged. A
  synchronous exception of the handler is not caught: the callback then rejects with
  the handler's exception in place of the original error.
\<close>

theorem responseRejected_cases:
  "responseRejected None error w = (AxiosFailure error, w, 0)
   \<and> (response_status error \<noteq> Some 401 \<longrightarrow>
        responseRejected unauthorizedHandler error w = (AxiosFailure error, w, 0))
   \<and> (response_status error = Some 401 \<and> h w = (None, w') \<longrightarrow>
        responseRejected (Some h) error w = (AxiosFailure error, w', 1))
   \<and> (response_status error = Some 401 \<and> h w = (Some x, w') \<longrightarrow>
        responseRejected (Some h) error w = (x, w', 1))
   \<and> (response_status error = Some 401 \<longrightarrow>
        responseRejected (Some clearSession) error s = (AxiosFailure error, signOut s, 1))"
  by (simp add: responseRejected_def clearSession_def)

text \<open>
  C5, witness: a 500 response and a 401 response with \<open>clearSession\<close> registered, and a
  401 response with a handler that throws.
\<close>

theorem responseRejected_cases_witness:
  "response_status \<lparr>response_status = Some 500, message = ''Server Error''\<rparr> \<noteq> Some 401
   \<and> responseRejected (Some clearSession)
        \<lparr>response_status = Some 500, message = ''Server Error''\<rparr>
        (initialSession Map.empty :: AuthUser AuthSession)
     = (AxiosFailure \<lparr>response_status = Some 500, message = ''Server Error''\<rparr>,
        initialSession Map.empty, 0)
   \<and> response_status \<lparr>response_status = Some 401, message = ''Unauthorized''\<rparr> = Some 401
   \<and> clearSession (initialSession Map.empty :: AuthUser AuthSession)
     = (None, signOut (initialSession Map.empty))
   \<and> responseRejected (Some clearSession)
        \<lparr>response_status = Some 401, message = ''Unauthorized''\<rparr>
        (initialSession Map.empty :: AuthUser AuthSession)
     = (AxiosFailure \<lparr>response_status = Some 401, message = ''Unauthorized''\<rparr>,
        signOut (initialSession Map.empty), 1)
   \<and> (\<lambda>w. (Some (Exception ''handler failed''), w)) () = (Some (Exception ''handler failed''), ())
   \<and> responseRejected (Some (\<lambda>w. (Some (Exception ''handler failed''), w)))
        \<lparr>response_status = Some 401, message = ''Unauthorized''\<rparr> ()
     = (Exception ''handler failed'', (), 1)"
proof -
  let ?e500 = "\<lparr>response_status = Some 500, message = ''Server Error''\<rparr>"
  let ?e401 = "\<lparr>response_status = Some 401, message = ''Unauthorized''\<rparr>"
  let ?s0 = "initialSession Map.empty :: AuthUser AuthSession"
  let ?boom = "\<lambda>w :: unit. (Some (Exception ''handler failed''), w)"
  have a: "response_status ?e500 \<noteq> Some 401" by simp
  have b: "response_status ?e401 = Some 401" by simp
  have c: "clearSession ?s0 = (None, signOut ?s0)" by (simp add: clearSession_def)
  have d: "?boom () = (Some (Exception ''handler failed''), ())" by simp
  have r1: "responseRejected (Some clearSession) ?e500 ?s0 = (AxiosFailure ?e500, ?s0, 0)"
    using responseRejected_cases [of ?e500 ?s0 "Some clearSession"] a by blast
  have r2: "responseRejected (Some clearSession) ?e401 ?s0 = (AxiosFailure ?e401, signOut ?s0, 1)"
    using responseRejected_cases [of ?e401 ?s0 _ clearSession "signOut ?s0"] b c by blast
  have r3: "responseRejected (Some ?boom) ?e401 () = (Exception ''handler failed'', (), 1)"
    using responseRejected_cases [of ?e401 "()" _ ?boom "()" "Exception ''handler failed''"] b d
    by blast
  show ?thesis by (intro conjI a b c d r1 r2 r3)
qed

text \<open>
  C5, counterexample to the claim as stated: with a handler that fails by throwing, a
  401 response makes the callback raise the handler's exception, not the original error.
\<close>

theorem handler_throw_counterexample:
  "responseRejected (Some (\<lambda>w. (Some (Exception ''handler failed''), w)))
      \<lparr>response_status = Some 401, message = ''Unauthorized''\<rparr> ()
    = (Exception ''handler failed'', (), 1)
   \<and> Exception ''handler failed''
     \<noteq> AxiosFailure \<lparr>response_status = Some 401, message = ''Unauthorized''\<rparr>"
  by (simp add: responseRejected_def)

text \<open>
  C6, as amended. For every non-empty persisted value that fails to deserialize, the
  read path deletes the entry and treats it as absent, without raising: \<open>getItemWithTTL\<close>
  returns absent and removes the entry, and hydration from the initial state with such
  a value under the user key ends with no user, \<open>isHydrated\<close> true and the user entry
  removed.
\<close>

theorem corrupt_entry_purged:
  "(st key = Some raw \<and> raw \<noteq> [] \<and> parse raw = SyntaxError \<longrightarrow>
      getItemWithTTL parse now key st = (None, st(key := None)))
   \<and> (st AUTH_USER_KEY = Some raw \<and> raw \<noteq> [] \<and> parseUser raw = SyntaxError \<longrightarrow>
      user (hydrate parseUser (initialSession st)) = None
      \<and> isHydrated (hydrate parseUser (initialSession st))
      \<and> asyncStorage (hydrate parseUser (initialSession st)) AUTH_USER_KEY = None)"
  by (simp add: getItemWithTTL_def hydrate_def initialSession_def Let_def removeItem_def
        setAuthToken_def truthy_def split: option.splits)

text \<open>
  C6, witness: the text \<open>not json\<close> under the user key and under the key of the
  cached encryption key.
\<close>

theorem corrupt_entry_purged_witness:
  "[AUTH_USER_KEY \<mapsto> ''not json'', STORAGE_KEY \<mapsto> ''not json''] STORAGE_KEY = Some ''not json''
   \<and> [AUTH_USER_KEY \<mapsto> ''not json'', STORAGE_KEY \<mapsto> ''not json''] AUTH_USER_KEY = Some ''not json''
   \<and> ''not json'' \<noteq> []
   \<and> sample_parse ''not json'' = SyntaxError
   \<and> sample_parseUser ''not json'' = SyntaxError
   \<and> getItemWithTTL sample_parse 0 STORAGE_KEY
        [AUTH_USER_KEY \<mapsto> ''not json'', STORAGE_KEY \<mapsto> ''not json'']
     = (None, [AUTH_USER_KEY \<mapsto> ''not json''])
   \<and> user (hydrate sample_parseUser
        (initialSession [AUTH_USER_KEY \<mapsto> ''not json'', STORAGE_KEY \<mapsto> ''not json''])) = None
   \<and> isHydrated (hydrate sample_parseUser
        (initialSession [AUTH_USER_KEY \<mapsto> ''not json'', STORAGE_KEY \<mapsto> ''not json'']))
   \<and> asyncStorage (hydrate sample_parseUser
        (initialSession [AUTH_USER_KEY \<mapsto> ''not json'', STORAGE_KEY \<mapsto> ''not json'']))
        AUTH_USER_KEY = None"
proof -
  let ?st = "[AUTH_USER_KEY \<mapsto> ''not json'', STORAGE_KEY \<mapsto> ''not json'']"
  have a: "?st STORAGE_KEY = Some ''not json''" by simp
  have b: "?st AUTH_USER_KEY = Some ''not json''" by (simp add: keys_distinct)
  have c: "''not json'' \<noteq> []" by simp
  have d: "sample_parse ''not json'' = SyntaxError" by (simp add: sample_parse_def)
  have e: "sample_parseUser ''not json'' = SyntaxError" by (simp add: sample_parseUser_def)
  note t = corrupt_entry_purged [of ?st STORAGE_KEY "''not json''" sample_parse 0 sample_parseUser]
  have g: "getItemWithTTL sample_parse 0 STORAGE_KEY ?st = (None, ?st(STORAGE_KEY := None))"
    using t a c d by blast
  have g': "getItemWithTTL sample_parse 0 STORAGE_KEY ?st = (None, [AUTH_USER_KEY \<mapsto> ''not json''])"
    unfolding g by (simp add: keys_distinct)
  have h: "user (hydrate sample_parseUser (initialSession ?st)) = None
      \<and> isHydrated (hydrate sample_parseUser (initialSession ?st))
      \<and> asyncStorage (hydrate sample_parseUser (initialSession ?st)) AUTH_USER_KEY = None"
    using t b c e by blast
  show ?thesis using a b c d e g' h by blast
qed

text \<open>
  C6, counterexample to the claim as stated: the empty string fails to deserialize,
  and the read path answers absent for it without parsing it and without deleting it.
\<close>

theorem empty_entry_counterexample:
  "sample_parse [] = SyntaxError
   \<and> getItemWithTTL sample_parse 0 STORAGE_KEY [STORAGE_KEY \<mapsto> []]
     = (None, [STORAGE_KEY \<mapsto> []])"
  by (simp add: getItemWithTTL_def sample_parse_def)

text \<open>
  C7. Session teardown is idempotent. A second \<open>signOut\<close> changes nothing; two 401
  responses in a row, after the provider registered \<open>clearSession\<close> and with no login
  in between, leave
  the state that one leaves, and each propagates its own error rather than a new one.
  That state has no token, no user, the key flag false, no authorization header, and
  none of the three persisted session keys.
\<close>

theorem teardown_idempotent:
  "signOut (signOut s) = signOut s
   \<and> responseRejected (onUnauthorized clearSession uh) (e1\<lparr>response_status := Some 401\<rparr>) s
       = (AxiosFailure (e1\<lparr>response_status := Some 401\<rparr>), signOut s, 1)
   \<and> responseRejected (onUnauthorized clearSession uh) (e2\<lparr>response_status := Some 401\<rparr>)
         (signOut s)
       = (AxiosFailure (e2\<lparr>response_status := Some 401\<rparr>), signOut s, 1)
   \<and> token (signOut s) = None \<and> user (signOut s) = None
   \<and> \<not> encryptionKeyConfigured (signOut s) \<and> authorization (signOut s) = None
   \<and> asyncStorage (signOut s) AUTH_TOKEN_KEY = None
   \<and> asyncStorage (signOut s) AUTH_USER_KEY = None
   \<and> asyncStorage (signOut s) AUTH_KEY_FLAG = None"
  by (simp add: signOut_idem responseRejected_def onUnauthorized_def clearSession_def
        signOut_fields multiRemove_def)

text \<open>
  C9. \<open>refreshUser\<close> without a token (null or empty) sends no request and changes
  nothing. With a token, when the backend answers with a profile, it sends the one
  request, puts the profile in memory and under the user key of the store, and leaves
  the token in memory, the token in the store, every other store entry and the
  authorization header unchanged.
\<close>

theorem refreshUser_frame:
  "(\<not> truthy (token s) \<longrightarrow> refreshUser stringify uh outcome s = (None, s))
   \<and> (truthy (token s) \<longrightarrow>
        fst (refreshUser stringify uh (Resolved d) s) = None
        \<and> user (snd (refreshUser stringify uh (Resolved d) s)) = Some d
        \<and> asyncStorage (snd (refreshUser stringify uh (Resolved d) s))
            = (asyncStorage s)(AUTH_USER_KEY \<mapsto> stringify d)
        \<and> token (snd (refreshUser stringify uh (Resolved d) s)) = token s
        \<and> asyncStorage (snd (refreshUser stringify uh (Resolved d) s)) AUTH_TOKEN_KEY
            = asyncStorage s AUTH_TOKEN_KEY
        \<and> authorization (snd (refreshUser stringify uh (Resolved d) s)) = authorization s
        \<and> requests (snd (refreshUser stringify uh (Resolved d) s))
            = requests s @ [''/user/fetch''])"
  by (simp add: refreshUser_def Let_def keys_distinct)

text \<open>
  C9, witness: the initial session, which has no token, and a signed-in session with
  the token \<open>abc\<close> whose profile the backend returns.
\<close>

theorem refreshUser_frame_witness:
  "\<not> truthy (token (initialSession Map.empty :: AuthUser AuthSession))
   \<and> refreshUser sample_stringifyUser (Some clearSession) (Resolved sample_user)
        (initialSession Map.empty)
     = (None, initialSession Map.empty)
   \<and> truthy (token sample_session)
   \<and> user (snd (refreshUser sample_stringifyUser (Some clearSession) (Resolved sample_user)
        sample_session)) = Some sample_user
   \<and> token (snd (refreshUser sample_stringifyUser (Some clearSession) (Resolved sample_user)
        sample_session)) = Some ''abc''
   \<and> asyncStorage (snd (refreshUser sample_stringifyUser (Some clearSession)
        (Resolved sample_user) sample_session)) AUTH_TOKEN_KEY = Some ''abc''
   \<and> authorization (snd (refreshUser sample_stringifyUser (Some clearSession)
        (Resolved sample_user) sample_session)) = Some ''Bearer abc''
   \<and> requests (snd (refreshUser sample_stringifyUser (Some clearSession)
        (Resolved sample_user) sample_session)) = [''/user/fetch'']"
proof -
  let ?s0 = "initialSession Map.empty :: AuthUser AuthSession"
  have a: "\<not> truthy (token ?s0)" by (simp add: truthy_def initialSession_def)
  have b: "truthy (token sample_session)" by (simp add: truthy_def sample_session_def)
  have r0: "refreshUser sample_stringifyUser (Some clearSession) (Resolved sample_user) ?s0
              = (None, ?s0)"
    using refreshUser_frame [of ?s0 sample_stringifyUser "Some clearSession" "Resolved sample_user"] a
    by blast
  note t = refreshUser_frame [of sample_session sample_stringifyUser "Some clearSession" _ sample_user]
  have r1: "user (snd (refreshUser sample_stringifyUser (Some clearSession) (Resolved sample_user)
              sample_session)) = Some sample_user"
    using t b by blast
  have r2: "token (snd (refreshUser sample_stringifyUser (Some clearSession) (Resolved sample_user)
              sample_session)) = Some ''abc''"
    using t b by (simp add: sample_session_def)
  have r3: "asyncStorage (snd (refreshUser sample_stringifyUser (Some clearSession)
              (Resolved sample_user) sample_session)) AUTH_TOKEN_KEY = Some ''abc''"
    using t b by (simp add: keys_distinct sample_session_def)
  have r4: "authorization (snd (refreshUser sample_stringifyUser (Some clearSession)
              (Resolved sample_user) sample_session)) = Some ''Bearer abc''"
    using t b by (simp add: sample_session_def)
  have r5: "requests (snd (refreshUser sample_stringifyUser (Some clearSession)
              (Resolved sample_user) sample_session)) = [''/user/fetch'']"
    using t b by (simp add: sample_session_def)
  show ?thesis by (intro conjI a b r0 r1 r2 r3 r4 r5)
qed

section \<open>Screens: decrypt failures and the reveal registry\<close>

text \<open>
  C8, the code at the failing input: the notes screen holds the encoded key, the
  decrypt call for \<open>note-1\<close> is rejected with status 401, and \<open>decryptNote\<close> only shows
  its toast. The mirror and the persisted key are as before.
\<close>

theorem decryptNote_401_keeps_key:
  "decryptNote (\<lambda>x. Some x) ''note-1''
      (Rejected \<lparr>response_status = Some 401, message = ''Unauthorized''\<rparr>)
      \<lparr>keyHook = \<lparr>rawKey = Some ''MTIzNA=='', isKeyHydrated = True\<rparr>,
       deviceStorage = [STORAGE_KEY \<mapsto> ''{\"value\":\"MTIzNA==\",\"expiresAt\":300000}''],
       promptKey = False, toasts = [], activeContent = Map.empty\<rparr>
    = \<lparr>keyHook = \<lparr>rawKey = Some ''MTIzNA=='', isKeyHydrated = True\<rparr>,
       deviceStorage = [STORAGE_KEY \<mapsto> ''{\"value\":\"MTIzNA==\",\"expiresAt\":300000}''],
       promptKey = False, toasts = [''Unable to decrypt note.''], activeContent = Map.empty\<rparr>"
  by (simp add: decryptNote_def truthy_def encodedKey_def)

text \<open>
  The sibling path: \<open>handleReveal\<close> on the passwords screen clears the key cache on a
  401 and on no other failure.
\<close>

lemma handleReveal_401_clears_key:
  "truthy (encodedKey (keyHook s)) \<Longrightarrow> response_status error = Some 401 \<Longrightarrow>
   rawKey (keyHook (handleReveal decodeKey i (Rejected error) s)) = None
   \<and> deviceStorage (handleReveal decodeKey i (Rejected error) s) STORAGE_KEY = None
   \<and> toasts (handleReveal decodeKey i (Rejected error) s)
     = toasts s @ [''Unable to decrypt password.'']"
  by (simp add: handleReveal_def screenClearKey_def clearKey_def removeItem_def Let_def)

lemma handleReveal_other_error_keeps_key:
  "response_status error \<noteq> Some 401 \<Longrightarrow>
   keyHook (handleReveal decodeKey i (Rejected error) s) = keyHook s
   \<and> deviceStorage (handleReveal decodeKey i (Rejected error) s) = deviceStorage s"
  by (simp add: handleReveal_def Let_def)

lemma decryptNote_error_keeps_key:
  "keyHook (decryptNote decodeKey i (Rejected error) s) = keyHook s
   \<and> deviceStorage (decryptNote decodeKey i (Rejected error) s) = deviceStorage s"
  by (simp add: decryptNote_def)

lemma handleReveal_success:
  "truthy (encodedKey (keyHook s)) \<Longrightarrow> decodeKey (case d of Text t \<Rightarrow> t | Object pw \<Rightarrow> pw) = Some secret \<Longrightarrow>
   handleReveal decodeKey i (Resolved d) s = reveal i secret s"
  by (simp add: handleReveal_def)

lemma timers_ok_initial: "timers_ok (initialPasswords st)"
  by (simp add: timers_ok_def initialPasswords_def)

lemma distinct_filter_fst: "distinct (map fst xs) \<Longrightarrow> distinct (map fst (filter P xs))"
  by (induction xs) auto

lemma timers_ok_clearTimeout: "timers_ok s \<Longrightarrow> timers_ok (clearTimeout h s)"
  by (auto simp: timers_ok_def clearTimeout_def distinct_filter_fst list_all_iff)

lemma no_pending_after_clear:
  assumes "timers_ok s"
  shows "filter (\<lambda>(h, j). j = i)
           (pendingTimers (case hideTimers s i of None \<Rightarrow> s
                           | Some h \<Rightarrow> if h \<noteq> 0 then clearTimeout h s else s)) = []"
  using assms
  by (auto simp: timers_ok_def clearTimeout_def list_all_iff filter_empty_conv split: option.splits)

lemma reveal_pending:
  assumes "timers_ok s"
  shows "filter (\<lambda>(h, j). j = i) (pendingTimers (reveal i x s)) = [(nextTimer s, i)]"
proof -
  let ?s1 = "s\<lparr>revealedPasswords := (revealedPasswords s)(i \<mapsto> x)\<rparr>"
  have ok1: "timers_ok ?s1" using assms by (simp add: timers_ok_def)
  have nt: "nextTimer (case hideTimers ?s1 i of None \<Rightarrow> ?s1
                           | Some h \<Rightarrow> if h \<noteq> 0 then clearTimeout h ?s1 else ?s1) = nextTimer s"
    by (simp add: clearTimeout_def split: option.splits)
  show ?thesis
    using no_pending_after_clear [OF ok1, of i] nt
    by (simp add: reveal_def Let_def)
qed

lemma timers_ok_reveal:
  assumes "timers_ok s"
  shows "timers_ok (reveal i x s)"
proof -
  let ?s1 = "s\<lparr>revealedPasswords := (revealedPasswords s)(i \<mapsto> x)\<rparr>"
  let ?s2 = "case hideTimers ?s1 i of None \<Rightarrow> ?s1
             | Some h \<Rightarrow> if h \<noteq> 0 then clearTimeout h ?s1 else ?s1"
  have ok1: "timers_ok ?s1" using assms by (simp add: timers_ok_def)
  have ok2: "timers_ok ?s2" using ok1 by (simp add: timers_ok_clearTimeout split: option.splits)
  have none: "filter (\<lambda>(h, j). j = i) (pendingTimers ?s2) = []"
    by (rule no_pending_after_clear [OF ok1])
  have r: "reveal i x s = ?s2\<lparr>hideTimers := (hideTimers ?s2)(i \<mapsto> nextTimer ?s2),
             pendingTimers := pendingTimers ?s2 @ [(nextTimer ?s2, i)],
             nextTimer := Suc (nextTimer ?s2)\<rparr>"
    by (simp add: reveal_def Let_def)
  have notin: "\<forall>(h, j) \<in> set (pendingTimers ?s2). j \<noteq> i"
    using none by (auto simp: filter_empty_conv)
  show ?thesis
    unfolding r using ok2 notin
    by (fastforce simp: timers_ok_def list_all_iff)
qed

lemma timers_ok_fire: "timers_ok s \<Longrightarrow> timers_ok (fireTimer h s)"
  using timers_ok_clearTimeout [of s h]
  by (auto simp: fireTimer_def timers_ok_def split: option.splits)

lemma timers_ok_unmount: "timers_ok s \<Longrightarrow> timers_ok (unmountPasswords s)"
  by (auto simp: timers_ok_def unmountPasswords_def distinct_filter_fst list_all_iff)

lemma distinct_same_le1:
  assumes "distinct xs" and "\<forall>y \<in> set xs. y = x"
  shows "length xs \<le> 1"
proof -
  have "set xs \<subseteq> {x}" using assms(2) by auto
  then have "card (set xs) \<le> card {x}" by (intro card_mono) simp_all
  then show ?thesis using distinct_card [OF assms(1)] by simp
qed

lemma pendingFor_le1:
  assumes "timers_ok s"
  shows "pendingFor j s \<le> 1"
proof (cases "hideTimers s j")
  case None
  then have "filter (\<lambda>(h, k). k = j) (pendingTimers s) = []"
    using assms by (auto simp: timers_ok_def list_all_iff filter_empty_conv)
  then show ?thesis by (simp add: pendingFor_def)
next
  case (Some h0)
  have d: "distinct (filter (\<lambda>(h, k). k = j) (pendingTimers s))"
    using assms by (simp add: timers_ok_def distinct_map)
  have "\<forall>y \<in> set (filter (\<lambda>(h, k). k = j) (pendingTimers s)). y = (h0, j)"
    using assms Some by (auto simp: timers_ok_def list_all_iff)
  from distinct_same_le1 [OF d this] show ?thesis by (simp add: pendingFor_def)
qed

lemma reveal_value: "revealedPasswords (reveal i x s) i = Some x"
  by (simp add: reveal_def Let_def clearTimeout_def split: option.splits)

lemma reveal_nextTimer: "nextTimer (reveal i x s) = Suc (nextTimer s)"
  by (simp add: reveal_def Let_def clearTimeout_def split: option.splits)

lemma reveal_keyHook: "keyHook (reveal i x s) = keyHook s"
  by (simp add: reveal_def Let_def clearTimeout_def split: option.splits)

lemma timers_ok_frame:
  assumes "nextTimer s' = nextTimer s" and "pendingTimers s' = pendingTimers s"
    and "hideTimers s' = hideTimers s"
  shows "timers_ok s' = timers_ok s"
  using assms by (simp add: timers_ok_def)

lemma screenClearKey_timers:
  "nextTimer (screenClearKey s) = nextTimer s"
  "pendingTimers (screenClearKey s) = pendingTimers s"
  "hideTimers (screenClearKey s) = hideTimers s"
  "revealedPasswords (screenClearKey s) = revealedPasswords s"
  by (simp_all add: screenClearKey_def clearKey_def)

lemma screenSetKey_timers:
  "nextTimer (screenSetKey enc str now v persist s) = nextTimer s"
  "pendingTimers (screenSetKey enc str now v persist s) = pendingTimers s"
  "hideTimers (screenSetKey enc str now v persist s) = hideTimers s"
  "revealedPasswords (screenSetKey enc str now v persist s) = revealedPasswords s"
  by (simp_all add: screenSetKey_def setKey_def Let_def)

lemma screenHydrateKey_timers:
  "nextTimer (screenHydrateKey parse now s) = nextTimer s"
  "pendingTimers (screenHydrateKey parse now s) = pendingTimers s"
  "hideTimers (screenHydrateKey parse now s) = hideTimers s"
  "revealedPasswords (screenHydrateKey parse now s) = revealedPasswords s"
  by (simp_all add: screenHydrateKey_def hydrateKey_def case_prod_beta)

text \<open>
  What a call of \<open>handleReveal\<close> does to the registry: it runs \<open>reveal\<close> with the decoded
  secret when there is a key, the call resolved and the answer decodes, and leaves
  the registry alone otherwise.
\<close>

lemma handleReveal_registry:
  "(\<exists>secret. handleReveal decodeKey i outcome s = reveal i secret s)
   \<or> (nextTimer (handleReveal decodeKey i outcome s) = nextTimer s
      \<and> pendingTimers (handleReveal decodeKey i outcome s) = pendingTimers s
      \<and> hideTimers (handleReveal decodeKey i outcome s) = hideTimers s
      \<and> revealedPasswords (handleReveal decodeKey i outcome s) = revealedPasswords s)"
proof (cases "truthy (encodedKey (keyHook s))")
  case False
  then show ?thesis by (simp add: handleReveal_def)
next
  case key: True
  show ?thesis
  proof (cases outcome)
    case (Resolved d)
    show ?thesis
    proof (cases "decodeKey (case d of Text t \<Rightarrow> t | Object pw \<Rightarrow> pw)")
      case None
      with key Resolved show ?thesis by (simp add: handleReveal_def)
    next
      case (Some secret)
      with key Resolved have "handleReveal decodeKey i outcome s = reveal i secret s"
        by (simp add: handleReveal_def)
      then show ?thesis by blast
    qed
  next
    case (Rejected error)
    with key show ?thesis
      by (simp add: handleReveal_def Let_def screenClearKey_timers)
  qed
qed

lemma handleReveal_rejected_registry:
  "revealedPasswords (handleReveal decodeKey i (Rejected error) s) = revealedPasswords s"
  by (simp add: handleReveal_def Let_def screenClearKey_timers)

lemma timers_ok_handleReveal:
  assumes "timers_ok s"
  shows "timers_ok (handleReveal decodeKey i outcome s)"
proof -
  from handleReveal_registry [of decodeKey i outcome s]
  consider secret where "handleReveal decodeKey i outcome s = reveal i secret s"
    | "nextTimer (handleReveal decodeKey i outcome s) = nextTimer s"
      "pendingTimers (handleReveal decodeKey i outcome s) = pendingTimers s"
      "hideTimers (handleReveal decodeKey i outcome s) = hideTimers s"
    by blast
  then show ?thesis
  proof cases
    case 1
    then show ?thesis using timers_ok_reveal [OF assms, of i secret] by simp
  next
    case 2
    from timers_ok_frame [OF this] assms show ?thesis by simp
  qed
qed

lemma timers_ok_step:
  assumes "timers_ok s"
  shows "timers_ok (screen_step enc str parse dec e s)"
proof (cases e)
  case (HandleReveal i outcome)
  then show ?thesis using timers_ok_handleReveal [OF assms] by simp
next
  case (Fire h)
  then show ?thesis using timers_ok_fire [OF assms] by simp
next
  case Unmount
  then show ?thesis using timers_ok_unmount [OF assms] by simp
next
  case (HookHydrate now)
  then show ?thesis
    using timers_ok_frame [OF screenHydrateKey_timers(1-3), of parse now s] assms by simp
next
  case (HookSetKey now v persist)
  then show ?thesis
    using timers_ok_frame [OF screenSetKey_timers(1-3), of enc str now v persist s] assms by simp
next
  case HookClearKey
  then show ?thesis
    using timers_ok_frame [OF screenClearKey_timers(1-3), of s] assms by simp
qed

lemma timers_ok_run:
  "timers_ok s \<Longrightarrow> timers_ok (run_screen enc str parse dec es s)"
  by (induction es arbitrary: s) (simp_all add: timers_ok_step)

lemma reveal_other: "j \<noteq> i \<Longrightarrow> revealedPasswords (reveal j x s) i = revealedPasswords s i"
  by (simp add: reveal_def Let_def clearTimeout_def split: option.splits)

lemma revealed_step:
  assumes "other_than i e"
  shows "revealedPasswords (screen_step enc str parse dec e s) i = revealedPasswords s i
         \<or> revealedPasswords (screen_step enc str parse dec e s) i = None"
proof (cases e)
  case (HandleReveal j outcome)
  show ?thesis
  proof (cases outcome)
    case (Resolved d)
    with assms HandleReveal have ne: "j \<noteq> i" by simp
    from handleReveal_registry [of dec j outcome s] show ?thesis
      using HandleReveal ne by (auto simp: reveal_other)
  next
    case (Rejected error)
    with HandleReveal show ?thesis by (simp add: handleReveal_rejected_registry)
  qed
next
  case (Fire h)
  then show ?thesis
    by (auto simp: fireTimer_def clearTimeout_def split: option.splits)
next
  case Unmount
  then show ?thesis by (simp add: unmountPasswords_def)
next
  case (HookHydrate now)
  then show ?thesis by (simp add: screenHydrateKey_timers)
next
  case (HookSetKey now v persist)
  then show ?thesis by (simp add: screenSetKey_timers)
next
  case HookClearKey
  then show ?thesis by (simp add: screenClearKey_timers)
qed

lemma revealed_run:
  assumes "list_all (other_than i) es"
    and "revealedPasswords s i = Some b \<or> revealedPasswords s i = None"
  shows "revealedPasswords (run_screen enc str parse dec es s) i = Some b
         \<or> revealedPasswords (run_screen enc str parse dec es s) i = None"
  using assms
proof (induction es arbitrary: s)
  case Nil
  then show ?case by simp
next
  case (Cons e es)
  from Cons.prems have o: "other_than i e" and rest: "list_all (other_than i) es" by simp_all
  from revealed_step [OF o, of enc str parse dec s] Cons.prems(2)
  have "revealedPasswords (screen_step enc str parse dec e s) i = Some b
        \<or> revealedPasswords (screen_step enc str parse dec e s) i = None"
    by auto
  from Cons.IH [OF rest this] show ?case by simp
qed

text \<open>
  C4. Let \<open>s\<close> be any state the passwords screen reaches from its mount by calls of
  \<open>handleReveal\<close>, timer firings, the unmount cleanup and the hook's key operations, and
  let \<open>s\<close> hold an encryption key. Every record id has at most one pending timer in
  \<open>s\<close>. A call of \<open>handleReveal\<close> for \<open>i\<close> whose answer decodes to \<open>a\<close>, followed by one
  whose answer decodes to \<open>b\<close> with no timer firing in between, leaves exactly one
  pending timer for \<open>i\<close>, the one the second call started: the first call's timer is
  cancelled, not stacked, and \<open>b\<close> is what is shown. From then on, whatever timers fire
  and whatever else happens, until another resolved \<open>handleReveal\<close> for \<open>i\<close>, the
  plaintext observable for \<open>i\<close> is \<open>b\<close> or nothing.
\<close>

theorem handleReveal_replaces_timer:
  assumes "s = run_screen encodeKey stringify parse decodeKey es (initialPasswords st)"
    and "truthy (encodedKey (keyHook s))"
    and "decodeKey (case dA of Text t \<Rightarrow> t | Object pw \<Rightarrow> pw) = Some a"
    and "decodeKey (case dB of Text t \<Rightarrow> t | Object pw \<Rightarrow> pw) = Some b"
    and "s2 = handleReveal decodeKey i (Resolved dB) (handleReveal decodeKey i (Resolved dA) s)"
  shows "filter (\<lambda>(h, j). j = i) (pendingTimers (handleReveal decodeKey i (Resolved dA) s))
           = [(nextTimer s, i)]
         \<and> revealedPasswords (handleReveal decodeKey i (Resolved dA) s) i = Some a
         \<and> filter (\<lambda>(h, j). j = i) (pendingTimers s2) = [(Suc (nextTimer s), i)]
         \<and> pendingFor i s2 = 1
         \<and> revealedPasswords s2 i = Some b
         \<and> pendingFor j s \<le> 1
         \<and> (list_all (other_than i) es' \<longrightarrow>
              revealedPasswords (run_screen encodeKey stringify parse decodeKey es' s2) i = Some b
              \<or> revealedPasswords (run_screen encodeKey stringify parse decodeKey es' s2) i = None)"
proof -
  have ok: "timers_ok s"
    unfolding assms(1) by (rule timers_ok_run [OF timers_ok_initial])
  have h1: "handleReveal decodeKey i (Resolved dA) s = reveal i a s"
    using assms(2,3) by (simp add: handleReveal_def)
  have "truthy (encodedKey (keyHook (reveal i a s)))"
    using assms(2) by (simp add: reveal_keyHook)
  then have h2: "s2 = reveal i b (reveal i a s)"
    unfolding assms(5) h1 using assms(4) by (simp add: handleReveal_def)
  have ok1: "timers_ok (reveal i a s)" by (rule timers_ok_reveal [OF ok])
  have p1: "filter (\<lambda>(h, j). j = i) (pendingTimers (reveal i a s)) = [(nextTimer s, i)]"
    by (rule reveal_pending [OF ok])
  have v1: "revealedPasswords (reveal i a s) i = Some a" by (rule reveal_value)
  have p2: "filter (\<lambda>(h, j). j = i) (pendingTimers s2) = [(Suc (nextTimer s), i)]"
    unfolding h2 using reveal_pending [OF ok1, of i b] by (simp add: reveal_nextTimer)
  have v: "revealedPasswords s2 i = Some b"
    unfolding h2 by (rule reveal_value)
  have later: "list_all (other_than i) es' \<longrightarrow>
              revealedPasswords (run_screen encodeKey stringify parse decodeKey es' s2) i = Some b
              \<or> revealedPasswords (run_screen encodeKey stringify parse decodeKey es' s2) i = None"
  proof
    assume "list_all (other_than i) es'"
    then show "revealedPasswords (run_screen encodeKey stringify parse decodeKey es' s2) i = Some b
              \<or> revealedPasswords (run_screen encodeKey stringify parse decodeKey es' s2) i = None"
      by (rule revealed_run) (simp add: v)
  qed
  show ?thesis
    unfolding h1 using p1 v1 p2 v later pendingFor_le1 [OF ok, of j] by (simp add: pendingFor_def)
qed

text \<open>
  C4, witness: on the screen that holds the key \<open>1234\<close>, the decrypt call for the record
  \<open>r1\<close> answers \<open>secretA\<close> and a second one answers \<open>secretB\<close>; afterwards the timer with the
  handle 1 comes due, a further decrypt call for \<open>r1\<close> fails with status 500, and the
  timer with the handle 2 comes due.
\<close>

theorem handleReveal_replaces_timer_witness:
  "sample_passwords
     = run_screen sample_encodeKey sample_stringify sample_parse sample_decodeKey
         [HookSetKey 0 ''1234'' True] (initialPasswords Map.empty)
   \<and> truthy (encodedKey (keyHook sample_passwords))
   \<and> sample_decodeKey (case Text ''c2VjcmV0QQ=='' of Text t \<Rightarrow> t | Object pw \<Rightarrow> pw)
     = Some ''secretA''
   \<and> sample_decodeKey (case Object ''c2VjcmV0Qg=='' of Text t \<Rightarrow> t | Object pw \<Rightarrow> pw)
     = Some ''secretB''
   \<and> list_all (other_than ''r1'')
        [Fire 1,
         HandleReveal ''r1'' (Rejected \<lparr>response_status = Some 500, message = ''Server Error''\<rparr>),
         Fire 2]
   \<and> pendingFor ''r1''
        (handleReveal sample_decodeKey ''r1'' (Resolved (Object ''c2VjcmV0Qg==''))
          (handleReveal sample_decodeKey ''r1'' (Resolved (Text ''c2VjcmV0QQ=='')) sample_passwords))
      = 1
   \<and> revealedPasswords
        (handleReveal sample_decodeKey ''r1'' (Resolved (Object ''c2VjcmV0Qg==''))
          (handleReveal sample_decodeKey ''r1'' (Resolved (Text ''c2VjcmV0QQ=='')) sample_passwords))
        ''r1''
      = Some ''secretB''
   \<and> (revealedPasswords
         (run_screen sample_encodeKey sample_stringify sample_parse sample_decodeKey
            [Fire 1,
             HandleReveal ''r1'' (Rejected \<lparr>response_status = Some 500, message = ''Server Error''\<rparr>),
             Fire 2]
            (handleReveal sample_decodeKey ''r1'' (Resolved (Object ''c2VjcmV0Qg==''))
              (handleReveal sample_decodeKey ''r1'' (Resolved (Text ''c2VjcmV0QQ==''))
                 sample_passwords)))
         ''r1'' = Some ''secretB''
       \<or> revealedPasswords
         (run_screen sample_encodeKey sample_stringify sample_parse sample_decodeKey
            [Fire 1,
             HandleReveal ''r1'' (Rejected \<lparr>response_status = Some 500, message = ''Server Error''\<rparr>),
             Fire 2]
            (handleReveal sample_decodeKey ''r1'' (Resolved (Object ''c2VjcmV0Qg==''))
              (handleReveal sample_decodeKey ''r1'' (Resolved (Text ''c2VjcmV0QQ==''))
                 sample_passwords)))
         ''r1'' = None)"
proof -
  let ?es' = "[Fire 1,
         HandleReveal ''r1'' (Rejected \<lparr>response_status = Some 500, message = ''Server Error''\<rparr>),
         Fire 2]"
  let ?s2 = "handleReveal sample_decodeKey ''r1'' (Resolved (Object ''c2VjcmV0Qg==''))
          (handleReveal sample_decodeKey ''r1'' (Resolved (Text ''c2VjcmV0QQ=='')) sample_passwords)"
  have a: "sample_passwords
     = run_screen sample_encodeKey sample_stringify sample_parse sample_decodeKey
         [HookSetKey 0 ''1234'' True] (initialPasswords Map.empty)"
    by (rule sample_passwords_def)
  have b: "truthy (encodedKey (keyHook sample_passwords))"
    by (simp add: sample_passwords_def screenSetKey_def setKey_def Let_def truthy_def
          encodedKey_def sample_encodeKey_def)
  have c: "sample_decodeKey (case Text ''c2VjcmV0QQ=='' of Text t \<Rightarrow> t | Object pw \<Rightarrow> pw)
             = Some ''secretA''"
    by (simp add: sample_decodeKey_def)
  have d: "sample_decodeKey (case Object ''c2VjcmV0Qg=='' of Text t \<Rightarrow> t | Object pw \<Rightarrow> pw)
             = Some ''secretB''"
    by (simp add: sample_decodeKey_def)
  have e: "list_all (other_than ''r1'') ?es'" by simp
  note t = handleReveal_replaces_timer
             [of sample_passwords sample_encodeKey sample_stringify sample_parse sample_decodeKey
                 "[HookSetKey 0 ''1234'' True]" Map.empty "Text ''c2VjcmV0QQ==''" "''secretA''"
                 "Object ''c2VjcmV0Qg==''" "''secretB''" ?s2 "''r1''" "''r1''" ?es',
              OF a b c d refl]
  have f: "pendingFor ''r1'' ?s2 = 1"
    by (rule conjunct1 [OF conjunct2 [OF conjunct2 [OF conjunct2 [OF t]]]])
  have g: "revealedPasswords ?s2 ''r1'' = Some ''secretB''"
    by (rule conjunct1 [OF conjunct2 [OF conjunct2 [OF conjunct2 [OF conjunct2 [OF t]]]]])
  have h: "revealedPasswords
             (run_screen sample_encodeKey sample_stringify sample_parse sample_decodeKey ?es' ?s2)
             ''r1'' = Some ''secretB''
           \<or> revealedPasswords
             (run_screen sample_encodeKey sample_stringify sample_parse sample_decodeKey ?es' ?s2)
             ''r1'' = None"
    by (rule mp [OF conjunct2 [OF conjunct2 [OF conjunct2 [OF conjunct2 [OF conjunct2
          [OF conjunct2 [OF t]]]]]] e])
  show ?thesis by (intro conjI a b c d e f g h)
qed

text \<open>
  The same run evaluated: the one pending timer is the second call's (handle 2), the
  cancelled timer of the first call (handle 1) has no effect when its time comes, and
  the second one hides the password.
\<close>

lemma handleReveal_twice_example:
  "pendingTimers
     (handleReveal sample_decodeKey ''r1'' (Resolved (Object ''c2VjcmV0Qg==''))
       (handleReveal sample_decodeKey ''r1'' (Resolved (Text ''c2VjcmV0QQ=='')) sample_passwords))
     = [(2, ''r1'')]
   \<and> revealedPasswords (fireTimer 1
        (handleReveal sample_decodeKey ''r1'' (Resolved (Object ''c2VjcmV0Qg==''))
          (handleReveal sample_decodeKey ''r1'' (Resolved (Text ''c2VjcmV0QQ==''))
             sample_passwords))) ''r1''
     = Some ''secretB''
   \<and> revealedPasswords (fireTimer 2
        (handleReveal sample_decodeKey ''r1'' (Resolved (Object ''c2VjcmV0Qg==''))
          (handleReveal sample_decodeKey ''r1'' (Resolved (Text ''c2VjcmV0QQ==''))
             sample_passwords))) ''r1''
     = None"
  by (simp add: handleReveal_def reveal_def fireTimer_def clearTimeout_def initialPasswords_def
        sample_passwords_def screenSetKey_def setKey_def mountKeyHook_def sample_encodeKey_def
        sample_decodeKey_def truthy_def encodedKey_def Let_def)

end
